theory Spec2Isabelle
  imports Complex_Main
begin

section \<open>Python values, errors and strings\<close>

text \<open>
  A Python \<open>str\<close> is a \<open>string\<close>: a list of characters, each standing for the code
  point of its number, so that text with code points above 255 is outside the model.
  Exceptions of the source are values of \<open>error\<close>; a function that can raise returns
  \<open>error + 'a\<close> with \<open>Inl\<close> for the exception. Log lines are kept in the order in
  which they are written: \<open>Info\<close> for \<open>logger.info\<close>, \<open>Warn\<close> for \<open>logging.warn\<close>.
\<close>

datatype error =
    KeyError string
  | AttributeError string
  | UnboundLocalError string
  | IndexError string
  | ValueError string
  | Exception string

datatype log_entry = Info string | Warn string

datatype pyval =
    PNone
  | PBool bool
  | PInt int
  | PFloat real
  | PStr string
  | PList "pyval list"
  | PDict "(string \<times> pyval) list"

fun bind :: "error + 'a \<Rightarrow> ('a \<Rightarrow> error + 'b) \<Rightarrow> error + 'b" where
  "bind (Inl e) f = Inl e"
| "bind (Inr x) f = f x"

text \<open>A list comprehension whose body can raise: the first exception ends it.\<close>

fun map_err :: "('a \<Rightarrow> error + 'b) \<Rightarrow> 'a list \<Rightarrow> error + 'b list" where
  "map_err f [] = Inr []"
| "map_err f (x # xs) = bind (f x) (\<lambda>y. bind (map_err f xs) (\<lambda>ys. Inr (y # ys)))"

text \<open>\<open>str.startswith\<close>.\<close>

definition startswith :: "string \<Rightarrow> string \<Rightarrow> bool" where
  "startswith s p = (take (length p) s = p)"

text \<open>
  \<open>str.isspace\<close> on one character, for the code points below 256: tab to carriage return,
  the four separators 0x1C to 0x1F, space, next line (0x85) and no-break space (0xA0).
\<close>

definition isspace :: "char \<Rightarrow> bool" where
  "isspace c = (of_char c \<in> {9, 10, 11, 12, 13, 28, 29, 30, 31, 32, 133, 160 :: nat})"

text \<open>\<open>str.strip()\<close>: whitespace is removed at both ends.\<close>

definition strip :: "string \<Rightarrow> string" where
  "strip s = rev (dropWhile isspace (rev (dropWhile isspace s)))"

text \<open>
  \<open>str.replace(old, new)\<close>: every non-overlapping occurrence, from the left. With an
  empty \<open>old\<close>, Python puts \<open>new\<close> before every character and at the end.
\<close>

function replace :: "string \<Rightarrow> string \<Rightarrow> string \<Rightarrow> string" where
  "replace [] old new = (if old = [] then new else [])"
| "replace (c # cs) old new =
     (if old = [] then new @ c # replace cs old new
      else if startswith (c # cs) old then new @ replace (drop (length old) (c # cs)) old new
      else c # replace cs old new)"
  by pat_completeness auto
termination
  by (relation "measure (\<lambda>(s, old, new). length s)") auto

text \<open>\<open>str(n)\<close> for a non-negative integer, \<open>str(b)\<close> for a bool.\<close>

fun str_nat :: "nat \<Rightarrow> string" where
  "str_nat n =
     (if n < 10 then [char_of (48 + n)]
      else str_nat (n div 10) @ [char_of (48 + n mod 10)])"

declare str_nat.simps [simp del]

definition str_bool :: "bool \<Rightarrow> string" where
  "str_bool b = (if b then ''True'' else ''False'')"

text \<open>An optional string inside an f-string: \<open>None\<close> prints as \<open>None\<close>.\<close>

fun str_opt :: "string option \<Rightarrow> string" where
  "str_opt None = ''None''"
| "str_opt (Some s) = s"

text \<open>Truth value of an optional string: \<open>None\<close> and the empty string are false.\<close>

fun truthy :: "string option \<Rightarrow> bool" where
  "truthy None = False"
| "truthy (Some s) = (s \<noteq> [])"

section \<open>External collaborators\<close>

text \<open>
  Tokenizer, model hub, dataset library, accelerator runtime and process environment are
  outside the repository. Each is represented by what it answers. Loaders and hardware
  queries are taken to answer; calls that receive data computed by this program (chat
  rendering, the percentile) may raise on it. Subscripting (\<open>os.environ[k]\<close>,
  \<open>record[k]\<close>, \<open>dataset[0]\<close>) raises as Python does.
\<close>

record message =
  role :: string
  content :: string

text \<open>A value in a dataset row: a string of the source data, or token ids added by mapping.\<close>

datatype cell = Text string | Ids "nat list"

type_synonym row = "string \<rightharpoonup> cell"

record dataset =
  column_names :: "string list"
  rows :: "row list"

record pretrained_config =
  model_type :: string
  tie_word_embeddings :: bool

text \<open>
  \<open>chat_template\<close> is \<open>tokenizer.apply_chat_template(chat, tokenize=False)\<close>,
  \<open>input_ids\<close> is \<open>tokenizer(text)["input_ids"]\<close>, and \<open>padded\<close> is the encoding
  returned by \<open>tokenizer(text, truncation=True, max_length=n, padding="max_length")\<close>.
\<close>

record tokenizer =
  pad_token :: "string option"
  bos_token :: "string option"
  eos_token :: "string option"
  chat_template :: "message list option \<Rightarrow> error + string"
  input_ids :: "string \<Rightarrow> nat list"
  padded :: "string \<Rightarrow> int \<Rightarrow> (string \<times> cell) list"

record gpu =
  total_memory :: nat
  memory_reserved :: nat
  memory_allocated :: nat

record world =
  environ :: "string \<rightharpoonup> string"
  AutoConfig_from_pretrained :: "string \<Rightarrow> pretrained_config"
  AutoTokenizer_from_pretrained :: "string \<Rightarrow> tokenizer"
  cuda_is_available :: bool
  cuda_devices :: "gpu list"
  cuda_get_device_capability :: "nat \<times> nat"
  load_dataset :: "string \<Rightarrow> dataset"
  np_percentile :: "nat list \<Rightarrow> real \<Rightarrow> error + int"
  train_test_split :: "dataset \<Rightarrow> dataset \<times> dataset"

section \<open>models.py\<close>

datatype model_class = BaseModel | GemmaModel | CohereModel | QwenModel

record model =
  model_class :: model_class
  base_model_id :: string
  config :: pretrained_config
  tokenizer :: tokenizer
  target_modules :: "string list"

fun token_log :: "string \<Rightarrow> string option \<Rightarrow> log_entry" where
  "token_log name tok =
     (if truthy tok then Info (name @ '' token: '' @ str_opt tok)
      else Warn (name @ '' token not found''))"

text \<open>
  \<open>BaseModel.__init__\<close>, which every subclass constructor calls unchanged: it loads the
  tokenizer, sets the four instance attributes and reports the three special tokens.
\<close>

definition BaseModel_init ::
  "world \<Rightarrow> model_class \<Rightarrow> string \<Rightarrow> pretrained_config \<Rightarrow> log_entry list \<times> model" where
  "BaseModel_init w cls mid cfg =
     (let tok = AutoTokenizer_from_pretrained w mid in
      ([token_log ''Pad'' (pad_token tok),
        token_log ''Bos'' (bos_token tok),
        token_log ''Eos'' (eos_token tok)],
       \<lparr>model_class = cls, base_model_id = mid, config = cfg, tokenizer = tok,
        target_modules = [''q_proj'', ''k_proj'', ''v_proj'', ''o_proj'',
                          ''gate_proj'', ''up_proj'', ''down_proj'', ''lm_head'']\<rparr>))"

text \<open>\<open>record[key]\<close> and \<open>value.strip()\<close>; token ids have no \<open>strip\<close>.\<close>

definition getitem :: "row \<Rightarrow> string \<Rightarrow> error + cell" where
  "getitem r k = (case r k of None \<Rightarrow> Inl (KeyError k) | Some v \<Rightarrow> Inr v)"

fun strip_cell :: "cell \<Rightarrow> error + string" where
  "strip_cell (Text s) = Inr (strip s)"
| "strip_cell (Ids xs) = Inl (AttributeError ''strip'')"

definition field :: "row \<Rightarrow> string \<Rightarrow> error + string" where
  "field r k = bind (getitem r k) strip_cell"

text \<open>
  \<open>prepare_chat_template\<close> of each class. The fields are read in the order instruct,
  input, output. \<open>BaseModel\<close>'s body is \<open>pass\<close>: it returns \<open>None\<close>.
\<close>

fun prepare_chat_template :: "model_class \<Rightarrow> row \<Rightarrow> error + message list option" where
  "prepare_chat_template BaseModel r = Inr None"
| "prepare_chat_template GemmaModel r =
     bind (field r ''instruct'') (\<lambda>instruct.
     bind (field r ''input'') (\<lambda>inp.
     bind (field r ''output'') (\<lambda>out.
       Inr (Some [\<lparr>role = ''user'', content = instruct @ [CHR 0x0A, CHR 0x0A, CHR 0x0A] @ inp\<rparr>,
                  \<lparr>role = ''assistant'', content = out\<rparr>]))))"
| "prepare_chat_template CohereModel r =
     bind (field r ''instruct'') (\<lambda>instruct.
     bind (field r ''input'') (\<lambda>inp.
     bind (field r ''output'') (\<lambda>out.
       Inr (Some [\<lparr>role = ''system'', content = instruct\<rparr>,
                  \<lparr>role = ''user'', content = inp\<rparr>,
                  \<lparr>role = ''assistant'', content = out\<rparr>]))))"
| "prepare_chat_template QwenModel r =
     bind (field r ''instruct'') (\<lambda>instruct.
     bind (field r ''input'') (\<lambda>inp.
     bind (field r ''output'') (\<lambda>out.
       Inr (Some [\<lparr>role = ''system'', content = instruct\<rparr>,
                  \<lparr>role = ''user'', content = inp\<rparr>,
                  \<lparr>role = ''assistant'', content = out\<rparr>]))))"

text \<open>\<open>BaseModel.apply_chat_template\<close>, inherited by every class.\<close>

definition apply_chat_template :: "model \<Rightarrow> row \<Rightarrow> error + string" where
  "apply_chat_template m r =
     bind (prepare_chat_template (model_class m) r) (\<lambda>chat.
     bind (chat_template (tokenizer m) chat) (\<lambda>text.
       Inr (if truthy (bos_token (tokenizer m))
            then replace text (str_opt (bos_token (tokenizer m))) []
            else text)))"

text \<open>
  \<open>ModelsFactory.get_model_config\<close>. The error branch raises before any constructor runs;
  the message carries \<open>base_model_id\<close>.
\<close>

definition get_model_config :: "world \<Rightarrow> string \<Rightarrow> log_entry list \<times> (error + model)" where
  "get_model_config w mid =
     (let cfg = AutoConfig_from_pretrained w mid in
      if startswith (model_type cfg) ''gemma'' then
        (case BaseModel_init w GemmaModel mid cfg of (l, m) \<Rightarrow> (l, Inr m))
      else if startswith (model_type cfg) ''cohere'' then
        (case BaseModel_init w CohereModel mid cfg of (l, m) \<Rightarrow> (l, Inr m))
      else if startswith (model_type cfg) ''qwen'' then
        (case BaseModel_init w QwenModel mid cfg of (l, m) \<Rightarrow> (l, Inr m))
      else ([], Inl (Exception (''Unsupported model type: '' @ mid))))"


text \<open>
  Attribute lookup on a strategy object: the instance attributes set by
  \<open>BaseModel.__init__\<close>, then the names defined in the bodies of the classes along the
  method resolution order; any other name raises \<open>AttributeError\<close>.
\<close>

datatype attr_value =
    AStr string
  | AConfig pretrained_config
  | ATokenizer tokenizer
  | AStrList "string list"
  | AMethod model_class string

definition instance_dict :: "model \<Rightarrow> (string \<times> attr_value) list" where
  "instance_dict m =
     [(''base_model_id'', AStr (base_model_id m)),
      (''config'', AConfig (config m)),
      (''tokenizer'', ATokenizer (tokenizer m)),
      (''target_modules'', AStrList (target_modules m))]"

fun class_dict :: "model_class \<Rightarrow> string list" where
  "class_dict BaseModel = [''__init__'', ''prepare_chat_template'', ''apply_chat_template'']"
| "class_dict GemmaModel = [''__init__'', ''prepare_chat_template'']"
| "class_dict CohereModel = [''__init__'', ''prepare_chat_template'']"
| "class_dict QwenModel = [''__init__'', ''prepare_chat_template'']"

fun mro :: "model_class \<Rightarrow> model_class list" where
  "mro BaseModel = [BaseModel]"
| "mro c = [c, BaseModel]"

definition getattr :: "model \<Rightarrow> string \<Rightarrow> error + attr_value" where
  "getattr m name =
     (case map_of (instance_dict m) name of
        Some v \<Rightarrow> Inr v
      | None \<Rightarrow>
          (case filter (\<lambda>c. name \<in> set (class_dict c)) (mro (model_class m)) of
             c # _ \<Rightarrow> Inr (AMethod c name)
           | [] \<Rightarrow> Inl (AttributeError name)))"

section \<open>tuner.py\<close>

text \<open>
  The attributes of a \<open>Tuner\<close>. \<open>max_len\<close> and \<open>eval_strategy\<close> are \<open>None\<close> until
  \<open>sft\<close> and \<open>prepare_datasets\<close> set them; \<open>eval_steps\<close> is set together with
  \<open>eval_strategy\<close>, to Python's \<open>None\<close> or to 0.1.
\<close>

record tuner =
  base_model_id :: string
  model_config :: model
  tokenizer :: tokenizer
  device_map :: "string option"
  deepspeed :: pyval
  optim :: string
  bf16 :: bool
  fp16 :: bool
  attn_implementation :: "string option"
  max_len :: "int option"
  eval_strategy :: "string option"
  eval_steps :: "real option"

definition dashes51 :: string where
  "dashes51 = ''---------------------------------------------------''"

fun gpu_log :: "nat \<Rightarrow> gpu list \<Rightarrow> log_entry list" where
  "gpu_log i [] = []"
| "gpu_log i (g # gs) =
     [Info (''GPU: '' @ str_nat i),
      Info (''Total GPU Memory: '' @ str_nat (total_memory g)),
      Info (''Reserved GPU Memory: '' @ str_nat (memory_reserved g)),
      Info (''Allocated GPU Memory: '' @ str_nat (memory_allocated g)),
      Info dashes51] @ gpu_log (Suc i) gs"

text \<open>
  \<open>Tuner.print_cuda_info\<close>. Its first statement subscripts \<open>os.environ\<close>, which raises
  \<open>KeyError\<close> for an absent name, before anything is logged.
\<close>

definition print_cuda_info :: "world \<Rightarrow> log_entry list \<times> (error + unit)" where
  "print_cuda_info w =
     (case environ w ''CUDA_VISIBLE_DEVICES'' of
        None \<Rightarrow> ([], Inl (KeyError ''CUDA_VISIBLE_DEVICES''))
      | Some visible_devices \<Rightarrow>
          ([Info (''visible_devices: '' @ visible_devices),
            Info dashes51,
            Info ''CUDA Devices:''] @ gpu_log 0 (cuda_devices w), Inr ()))"

definition get_deepspeed_config :: pyval where
  "get_deepspeed_config =
     PDict [
       (''zero_force_ds_cpu_optimizer'', PBool False),
       (''bf16'', PDict [(''enabled'', PStr ''auto'')]),
       (''zero_optimization'', PDict [
          (''stage'', PInt 3),
          (''offload_optimizer'', PDict [(''device'', PStr ''cpu'')]),
          (''offload_param'', PDict [(''device'', PStr ''cpu'')]),
          (''overlap_comm'', PBool True),
          (''sub_group_size'', PFloat 1000000000),
          (''reduce_bucket_size'', PStr ''auto''),
          (''stage3_prefetch_bucket_size'', PStr ''auto''),
          (''stage3_param_persistence_threshold'', PStr ''auto''),
          (''gather_16bit_weights_on_model_save'', PBool True)]),
       (''gradient_accumulation_steps'', PStr ''auto''),
       (''gradient_clipping'', PStr ''auto''),
       (''steps_per_print'', PStr ''auto''),
       (''train_batch_size'', PStr ''auto''),
       (''train_micro_batch_size_per_gpu'', PStr ''auto'')]"

text \<open>
  Lines 26 to 50 of \<open>Tuner.__init__\<close>: the defaults, then the hardware branches in the
  order of the source. The distributed block is entered on \<open>enable_deepspeed\<close> alone,
  before the capability is looked at. \<open>deepspeed.init_distributed()\<close> is taken to return.
\<close>

definition hyperparameters ::
  "world \<Rightarrow> string \<Rightarrow> model \<Rightarrow> bool \<Rightarrow> log_entry list \<times> tuner" where
  "hyperparameters w mid mc enable_deepspeed =
     (let t0 = \<lparr>base_model_id = mid, model_config = mc, tokenizer = model.tokenizer mc,
                device_map = Some ''auto'', deepspeed = PNone, optim = ''adamw_8bit'',
                bf16 = False, fp16 = False, attn_implementation = None,
                max_len = None, eval_strategy = None, eval_steps = None\<rparr>;
          (l, t2) =
            (if cuda_is_available w then
               (let (l1, t1) =
                      (if enable_deepspeed then
                         ([Info ''deepspeed: enabled''],
                          t0\<lparr>device_map := None, deepspeed := get_deepspeed_config,
                             optim := ''adamw_torch''\<rparr>)
                       else ([], t0))
                in (l1,
                    if 8 \<le> fst (cuda_get_device_capability w) then
                      t1\<lparr>bf16 := True,
                         attn_implementation :=
                           (if startswith (model_type (model.config mc)) ''gemma''
                            then Some ''eager'' else Some ''flash_attention_2'')\<rparr>
                    else t1\<lparr>fp16 := True\<rparr>))
             else ([], t0\<lparr>bf16 := True\<rparr>))
      in (l @ [Info (''Detected hyperparameters: fp16: '' @ str_bool (fp16 t2) @
                     '', bf16: '' @ str_bool (bf16 t2) @
                     '', flash_attentions: '' @ str_opt (attn_implementation t2))],
          t2))"

text \<open>
  \<open>Tuner.__init__\<close>: the informational dump, the family dispatch, the hyperparameters.
  Neither call is wrapped in a handler, so an exception of either ends the construction.
\<close>

definition Tuner_init :: "world \<Rightarrow> string \<Rightarrow> bool \<Rightarrow> log_entry list \<times> (error + tuner)" where
  "Tuner_init w mid enable_deepspeed =
     (case print_cuda_info w of
        (l1, Inl e) \<Rightarrow> (l1, Inl e)
      | (l1, Inr u) \<Rightarrow>
          (case get_model_config w mid of
             (l2, Inl e) \<Rightarrow> (l1 @ l2, Inl e)
           | (l2, Inr mc) \<Rightarrow>
               (case hyperparameters w mid mc enable_deepspeed of
                  (l3, t) \<Rightarrow> (l1 @ l2 @ l3, Inr t))))"


subsection \<open>Dataset operations used by sft\<close>

text \<open>\<open>Dataset.filter\<close> with a predicate that can raise.\<close>

fun filter_err :: "('a \<Rightarrow> error + bool) \<Rightarrow> 'a list \<Rightarrow> error + 'a list" where
  "filter_err f [] = Inr []"
| "filter_err f (x # xs) =
     bind (f x) (\<lambda>keep. bind (filter_err f xs) (\<lambda>ys. Inr (if keep then x # ys else ys)))"

definition Dataset_filter :: "(row \<Rightarrow> error + bool) \<Rightarrow> dataset \<Rightarrow> error + dataset" where
  "Dataset_filter f d = bind (filter_err f (rows d)) (\<lambda>rs. Inr (d\<lparr>rows := rs\<rparr>))"

text \<open>
  \<open>Dataset.map\<close>: the encoding returned for a row is merged into the row; the columns it
  brings are appended to the column names. No column is removed. An empty dataset keeps
  its columns.
\<close>

definition Dataset_map ::
  "(row \<Rightarrow> error + (string \<times> cell) list) \<Rightarrow> dataset \<Rightarrow> error + dataset" where
  "Dataset_map f d =
     bind (map_err (\<lambda>r. bind (f r) (\<lambda>enc. Inr (r ++ map_of enc, map fst enc))) (rows d))
       (\<lambda>ps. Inr \<lparr>column_names =
                    column_names d @
                    (case ps of [] \<Rightarrow> []
                     | p # _ \<Rightarrow> filter (\<lambda>k. k \<notin> set (column_names d)) (remdups (snd p))),
                  rows = map fst ps\<rparr>)"

text \<open>\<open>Dataset.remove_columns\<close> raises \<open>ValueError\<close> for a name that is not a column.\<close>

definition remove_columns :: "dataset \<Rightarrow> string list \<Rightarrow> error + dataset" where
  "remove_columns d names =
     (case filter (\<lambda>n. n \<notin> set (column_names d)) names of
        n # _ \<Rightarrow> Inl (ValueError n)
      | [] \<Rightarrow> Inr \<lparr>column_names = filter (\<lambda>c. c \<notin> set names) (column_names d),
                  rows = map (\<lambda>r. r |` (- set names)) (rows d)\<rparr>)"

subsection \<open>The Tuner's methods\<close>

definition get_instruction :: "tuner \<Rightarrow> row \<Rightarrow> error + string" where
  "get_instruction t record = apply_chat_template (model_config t) record"

definition read_max_len :: "tuner \<Rightarrow> error + int" where
  "read_max_len t = (case max_len t of None \<Rightarrow> Inl (AttributeError ''max_len'') | Some n \<Rightarrow> Inr n)"

definition map_func :: "tuner \<Rightarrow> row \<Rightarrow> error + (string \<times> cell) list" where
  "map_func t record =
     bind (get_instruction t record) (\<lambda>text.
     bind (read_max_len t) (\<lambda>n. Inr (padded (tokenizer t) text n)))"

definition filter_func :: "tuner \<Rightarrow> row \<Rightarrow> error + bool" where
  "filter_func t record =
     bind (get_instruction t record) (\<lambda>text.
     bind (read_max_len t) (\<lambda>n. Inr (int (length (input_ids (tokenizer t) text)) \<le> n)))"

text \<open>\<open>prepare_datasets\<close> sets \<open>eval_strategy\<close> and \<open>eval_steps\<close> on the Tuner.\<close>

definition prepare_datasets ::
  "world \<Rightarrow> tuner \<Rightarrow> dataset \<Rightarrow> bool \<Rightarrow> tuner \<times> dataset \<times> dataset option" where
  "prepare_datasets w t d do_eval =
     (if do_eval then
        (case train_test_split w d of
           (train, test) \<Rightarrow>
             (t\<lparr>eval_strategy := Some ''steps'', eval_steps := Some (1 / 10)\<rparr>, train, Some test))
      else (t\<lparr>eval_strategy := Some ''no'', eval_steps := None\<rparr>, d, None))"

fun py_opt_str :: "string option \<Rightarrow> pyval" where
  "py_opt_str None = PNone"
| "py_opt_str (Some s) = PStr s"

fun py_opt_float :: "real option \<Rightarrow> pyval" where
  "py_opt_float None = PNone"
| "py_opt_float (Some x) = PFloat x"

text \<open>
  \<open>prepare_args\<close>: the dictionary handed to \<open>TrainingArguments\<close>. It reads
  \<open>self.eval_strategy\<close>, an attribute that exists only after \<open>prepare_datasets\<close>.
\<close>

definition prepare_args ::
  "tuner \<Rightarrow> int \<Rightarrow> real \<Rightarrow> int \<Rightarrow> int \<Rightarrow> string \<Rightarrow> error + (string \<times> pyval) list" where
  "prepare_args t num_train_epochs learning_rate batch_size gradient_steps lr_scheduler_type =
     (case eval_strategy t of
        None \<Rightarrow> Inl (AttributeError ''eval_strategy'')
      | Some es \<Rightarrow>
          Inr [(''output_dir'', PStr ''.''),
               (''num_train_epochs'', PInt num_train_epochs),
               (''logging_steps'', PInt 1),
               (''eval_strategy'', PStr es),
               (''eval_steps'', py_opt_float (eval_steps t)),
               (''gradient_checkpointing'', PBool True),
               (''save_strategy'', PStr ''no''),
               (''bf16'', PBool (bf16 t)),
               (''fp16'', PBool (fp16 t)),
               (''optim'', PStr (optim t)),
               (''weight_decay'', PFloat (1 / 1000)),
               (''learning_rate'', PFloat learning_rate),
               (''lr_scheduler_type'', PStr lr_scheduler_type),
               (''per_device_train_batch_size'', PInt batch_size),
               (''per_device_eval_batch_size'', PInt batch_size),
               (''gradient_accumulation_steps'', PInt gradient_steps),
               (''eval_accumulation_steps'', PInt 1),
               (''deepspeed'', deepspeed t)])"

text \<open>\<open>get_lora_config\<close>: a missing or zero \<open>lora_alpha\<close> falls back to the rank.\<close>

definition get_lora_config :: "tuner \<Rightarrow> int \<Rightarrow> int option \<Rightarrow> (string \<times> pyval) list" where
  "get_lora_config t rank lora_alpha =
     [(''r'', PInt rank),
      (''lora_alpha'', PInt (case lora_alpha of None \<Rightarrow> rank
                             | Some a \<Rightarrow> if a \<noteq> 0 then a else rank)),
      (''target_modules'', PList (map PStr (target_modules (model_config t)))),
      (''lora_dropout'', PFloat (1 / 10)),
      (''task_type'', PStr ''CAUSAL_LM'')]"

text \<open>\<open>load_base_model\<close>: the arguments of the external loader and the checkpointing switch.\<close>

definition load_base_model :: "tuner \<Rightarrow> bool \<Rightarrow> (string \<times> pyval) list" where
  "load_base_model t gradient_checkpointing =
     [(''pretrained_model_name_or_path'', PStr (base_model_id t)),
      (''torch_dtype'', PStr ''bfloat16''),
      (''attn_implementation'', py_opt_str (attn_implementation t)),
      (''device_map'', py_opt_str (device_map t)),
      (''gradient_checkpointing'', PBool gradient_checkpointing)]"

datatype data_collator =
    DataCollatorForCompletionOnlyLM attr_value
  | DataCollatorForLanguageModeling

text \<open>What \<open>sft\<close> hands to the external \<open>Trainer\<close> before \<open>train()\<close> is called.\<close>

record trainer =
  base_model :: "(string \<times> pyval) list"
  peft_config :: "(string \<times> pyval) list"
  train_dataset :: dataset
  eval_dataset :: "dataset option"
  collator :: data_collator
  args :: "(string \<times> pyval) list"
  save_model :: string

text \<open>
  Lines 74 to 98 of \<open>sft\<close>: every record is formatted and tokenized, the length cut-off
  is taken, the first row is formatted again for the log, the dataset is filtered and
  mapped, and the scheduler type is assigned in the two column tests. The local variable
  \<open>lr_scheduler_type\<close> is \<open>None\<close> while unassigned.
\<close>

definition sft_prepare ::
  "world \<Rightarrow> tuner \<Rightarrow> string \<Rightarrow> real \<Rightarrow> error + (tuner \<times> dataset \<times> string option)" where
  "sft_prepare w t dataset_id max_len_percentile =
     (let d0 = load_dataset w dataset_id in
      bind (map_err (\<lambda>record. bind (get_instruction t record)
                                (\<lambda>text. Inr (input_ids (tokenizer t) text))) (rows d0))
        (\<lambda>inputs.
      bind (np_percentile w (map length inputs) max_len_percentile) (\<lambda>n.
      let t1 = t\<lparr>max_len := Some n\<rparr> in
      bind (case rows d0 of
              [] \<Rightarrow> Inl (IndexError ''Invalid key: 0 is out of bounds for size 0'')
            | record # _ \<Rightarrow> get_instruction t1 record) (\<lambda>example.
      bind (Dataset_filter (filter_func t1) d0) (\<lambda>d1.
      bind (Dataset_map (map_func t1) d1) (\<lambda>d2.
      bind (if ''input_ids'' \<notin> set (column_names d2) then Inl (KeyError ''input_ids'')
            else if rows d2 = [] then Inl (IndexError ''list index out of range'')
            else Inr ()) (\<lambda>u.
      bind (if ''text'' \<in> set (column_names d2)
            then bind (remove_columns d2 [''text'']) (\<lambda>d. Inr (d, Some ''constant''))
            else Inr (d2, None)) (\<lambda>(d3, lr1).
      bind (if ''instruct'' \<in> set (column_names d3)
            then bind (remove_columns d3 [''instruct'', ''input'', ''output''])
                   (\<lambda>d. Inr (d, Some ''linear''))
            else Inr (d3, lr1)) (\<lambda>(d4, lr2).
      Inr (t1, d4, lr2))))))))))"

text \<open>
  \<open>Tuner.sft\<close> up to the construction of the \<open>Trainer\<close>. The data collator is built
  first (the completion-only one reads \<open>self.model_config.response_template\<close>), then the
  datasets are split, then the training arguments are assembled, where an unassigned
  \<open>lr_scheduler_type\<close> raises \<open>UnboundLocalError\<close>.
\<close>

definition sft ::
  "world \<Rightarrow> tuner \<Rightarrow> string \<Rightarrow> string \<Rightarrow> bool \<Rightarrow> real \<Rightarrow> int \<Rightarrow> int option \<Rightarrow> real \<Rightarrow>
   int \<Rightarrow> int \<Rightarrow> int \<Rightarrow> real \<Rightarrow> bool \<Rightarrow> error + (tuner \<times> trainer)" where
  "sft w t dataset_id adapter_name do_eval max_len_percentile rank lora_alpha lora_dropout
       num_train_epochs batch_size gradient_steps learning_rate comp_only =
     bind (sft_prepare w t dataset_id max_len_percentile) (\<lambda>(t1, d, lr).
     bind (if comp_only
           then bind (getattr (model_config t1) ''response_template'')
                  (\<lambda>a. Inr (DataCollatorForCompletionOnlyLM a))
           else Inr DataCollatorForLanguageModeling) (\<lambda>dc.
     case prepare_datasets w t1 d do_eval of
       (t2, train, eval) \<Rightarrow>
     bind (case lr of
             None \<Rightarrow> Inl (UnboundLocalError ''lr_scheduler_type'')
           | Some lr_scheduler_type \<Rightarrow>
               prepare_args t2 num_train_epochs learning_rate batch_size gradient_steps
                 lr_scheduler_type) (\<lambda>a.
     Inr (t2, \<lparr>base_model = load_base_model t2 True,
               peft_config = get_lora_config t2 rank lora_alpha,
               train_dataset = train, eval_dataset = eval, collator = dc,
               args = a, save_model = adapter_name\<rparr>))))"

section \<open>Well-formed inputs and sample inputs\<close>

text \<open>The rows of a dataset have exactly its columns as keys.\<close>

definition wf_dataset :: "dataset \<Rightarrow> bool" where
  "wf_dataset d = list_all (\<lambda>r. dom r = set (column_names d)) (rows d)"

text \<open>
  A Record of the data model: a row with string fields for instruction, input and output,
  or with a pre-formatted text field. The keys are those the source uses: \<open>instruct\<close>,
  \<open>input\<close>, \<open>output\<close> and \<open>text\<close>.
\<close>

definition string_field :: "row \<Rightarrow> string \<Rightarrow> bool" where
  "string_field r k = (case r k of Some (Text s) \<Rightarrow> True | _ \<Rightarrow> False)"

definition instruction_record :: "row \<Rightarrow> bool" where
  "instruction_record r = list_all (string_field r) [''instruct'', ''input'', ''output'']"

definition is_record :: "row \<Rightarrow> bool" where
  "is_record r = (instruction_record r \<or> string_field r ''text'')"

definition known_family :: "string \<Rightarrow> bool" where
  "known_family mt =
     (startswith mt ''gemma'' \<or> startswith mt ''cohere'' \<or> startswith mt ''qwen'')"

text \<open>
  A small world to run the functions in: a hub with one model of each family and one of
  an unknown family, three datasets, one accelerator of capability 8.0.
\<close>

definition sample_tokenizer :: tokenizer where
  "sample_tokenizer =
     \<lparr>pad_token = Some ''<pad>'', bos_token = Some ''<bos>'', eos_token = None,
      chat_template =
        (\<lambda>chat. case chat of
             None \<Rightarrow> Inl (ValueError ''chat'')
           | Some ms \<Rightarrow> Inr (''<bos>'' @ concat (map (\<lambda>m. ''<'' @ role m @ ''>'' @ content m) ms))),
      input_ids = map of_char,
      padded = (\<lambda>text n. [(''input_ids'', Ids (map of_char text)),
                           (''attention_mask'', Ids (map (\<lambda>c. 1) text))])\<rparr>"

definition sample_hub :: "string \<Rightarrow> pretrained_config" where
  "sample_hub mid =
     \<lparr>model_type =
        (if mid = ''google/gemma-2-9b'' then ''gemma2''
         else if mid = ''CohereForAI/aya-23-8B'' then ''cohere''
         else if mid = ''Qwen/Qwen2.5-7B'' then ''qwen2''
         else ''llama''),
      tie_word_embeddings = False\<rparr>"

definition instruct_dataset :: dataset where
  "instruct_dataset =
     \<lparr>column_names = [''instruct'', ''input'', ''output''],
      rows = [[''instruct'' \<mapsto> Text '' Add. '', ''input'' \<mapsto> Text ''1 2'',
               ''output'' \<mapsto> Text ''3'']]\<rparr>"

definition text_dataset :: dataset where
  "text_dataset = \<lparr>column_names = [''text''], rows = [[''text'' \<mapsto> Text ''hello'']]\<rparr>"

definition prompt_dataset :: dataset where
  "prompt_dataset = \<lparr>column_names = [''prompt''], rows = [[''prompt'' \<mapsto> Text ''hello'']]\<rparr>"

definition sample_world :: world where
  "sample_world =
     \<lparr>environ = [''CUDA_VISIBLE_DEVICES'' \<mapsto> ''0''],
      AutoConfig_from_pretrained = sample_hub,
      AutoTokenizer_from_pretrained = (\<lambda>mid. sample_tokenizer),
      cuda_is_available = True,
      cuda_devices = [\<lparr>total_memory = 80, memory_reserved = 2, memory_allocated = 1\<rparr>],
      cuda_get_device_capability = (8, 0),
      load_dataset =
        (\<lambda>name. if name = ''instruct'' then instruct_dataset
                 else if name = ''text'' then text_dataset else prompt_dataset),
      np_percentile =
        (\<lambda>xs q. if xs = [] then Inl (IndexError ''index -1 is out of bounds'')
                 else Inr (int (fold max xs 0))),
      train_test_split = (\<lambda>d. (d, d\<lparr>rows := []\<rparr>))\<rparr>"

text \<open>The same world with an accelerator of capability 7.5, with none, and with no
  accelerator-visibility value in the environment.\<close>

definition low_world :: world where
  "low_world = sample_world\<lparr>cuda_get_device_capability := (7, 5)\<rparr>"

definition cpu_world :: world where
  "cpu_world = sample_world\<lparr>cuda_is_available := False, cuda_devices := []\<rparr>"

definition bare_world :: world where
  "bare_world = sample_world\<lparr>environ := Map.empty\<rparr>"

text \<open>The Tuner that \<open>Tuner.__init__\<close> builds in the sample world for the gemma model.\<close>

definition sample_tuner :: tuner where
  "sample_tuner =
     snd (hyperparameters sample_world ''google/gemma-2-9b''
            (snd (BaseModel_init sample_world GemmaModel ''google/gemma-2-9b''
                    (sample_hub ''google/gemma-2-9b''))) False)"

section \<open>Auxiliary facts\<close>

lemma bind_eq_Inr: "bind x f = Inr y \<longleftrightarrow> (\<exists>v. x = Inr v \<and> f v = Inr y)"
  by (cases x) auto

lemma startswith_hd: "startswith s (c # p) \<Longrightarrow> s \<noteq> [] \<and> hd s = c"
  by (cases s) (auto simp: startswith_def)

lemma gemma_not_cohere: "startswith s ''gemma'' \<Longrightarrow> \<not> startswith s ''cohere''"
  by (auto dest!: startswith_hd)

lemma gemma_not_qwen: "startswith s ''gemma'' \<Longrightarrow> \<not> startswith s ''qwen''"
  by (auto dest!: startswith_hd)

lemma BaseModel_init_logs: "length (fst (BaseModel_init w c mid cfg)) = 3"
  by (simp add: BaseModel_init_def Let_def)

lemma get_model_config_known:
  assumes "known_family (model_type (AutoConfig_from_pretrained w mid))"
  shows "\<exists>m. snd (get_model_config w mid) = Inr m \<and>
           model.config m = AutoConfig_from_pretrained w mid \<and>
           model_class m =
             (if startswith (model_type (AutoConfig_from_pretrained w mid)) ''gemma'' then GemmaModel
              else if startswith (model_type (AutoConfig_from_pretrained w mid)) ''cohere'' then CohereModel
              else QwenModel)"
  using assms
  by (auto simp: get_model_config_def known_family_def Let_def BaseModel_init_def)

lemma get_model_config_unknown:
  assumes "\<not> known_family (model_type (AutoConfig_from_pretrained w mid))"
  shows "get_model_config w mid = ([], Inl (Exception (''Unsupported model type: '' @ mid)))"
  using assms
  by (auto simp: get_model_config_def known_family_def Let_def)

lemma Tuner_init_returns:
  assumes "environ w ''CUDA_VISIBLE_DEVICES'' = Some v"
    and "snd (get_model_config w mid) = Inr m"
  shows "snd (Tuner_init w mid ds) = Inr (snd (hyperparameters w mid m ds))"
  using assms
  by (auto simp: Tuner_init_def print_cuda_info_def split: prod.splits sum.splits)

lemma hyperparameters_fields:
  "snd (hyperparameters w mid m ds) = t \<Longrightarrow>
     model_config t = m \<and>
     deepspeed t = (if cuda_is_available w \<and> ds then get_deepspeed_config else PNone) \<and>
     optim t = (if cuda_is_available w \<and> ds then ''adamw_torch'' else ''adamw_8bit'') \<and>
     device_map t = (if cuda_is_available w \<and> ds then None else Some ''auto'') \<and>
     bf16 t = (cuda_is_available w \<longrightarrow> 8 \<le> fst (cuda_get_device_capability w)) \<and>
     fp16 t = (cuda_is_available w \<and> \<not> 8 \<le> fst (cuda_get_device_capability w)) \<and>
     attn_implementation t =
       (if cuda_is_available w \<and> 8 \<le> fst (cuda_get_device_capability w)
        then (if startswith (model_type (model.config m)) ''gemma''
              then Some ''eager'' else Some ''flash_attention_2'')
        else None)"
  by (auto simp: hyperparameters_def Let_def split: prod.splits if_splits)

section \<open>The configuration builder\<close>

text \<open>
  C1 (as amended). Whenever the accelerator-visibility value is in the environment and the
  family is known, \<open>Tuner.__init__\<close> returns a Tuner, and the distributed optimizer
  \<open>adamw_torch\<close> and the offload block of \<open>get_deepspeed_config\<close> are selected exactly
  when an accelerator is present and distributed mode is requested, whatever the
  capability tier; in every other case the optimizer is the default \<open>adamw_8bit\<close> and
  there is no offload block.
\<close>
theorem distributed_iff_accelerator_and_requested:
  assumes "environ w ''CUDA_VISIBLE_DEVICES'' = Some v"
    and "known_family (model_type (AutoConfig_from_pretrained w mid))"
  shows "\<exists>t. snd (Tuner_init w mid enable_deepspeed) = Inr t \<and>
           (if cuda_is_available w \<and> enable_deepspeed
            then optim t = ''adamw_torch'' \<and> deepspeed t = get_deepspeed_config \<and>
                 deepspeed t \<noteq> PNone
            else optim t = ''adamw_8bit'' \<and> deepspeed t = PNone)"
proof -
  from assms(2) obtain m where m: "snd (get_model_config w mid) = Inr m"
    using get_model_config_known by blast
  let ?t = "snd (hyperparameters w mid m enable_deepspeed)"
  have "snd (Tuner_init w mid enable_deepspeed) = Inr ?t"
    by (rule Tuner_init_returns [OF assms(1) m])
  moreover have "get_deepspeed_config \<noteq> PNone"
    by (simp add: get_deepspeed_config_def)
  ultimately show ?thesis
    using hyperparameters_fields [of w mid m enable_deepspeed ?t] by auto
qed

lemmas sample_defs =
  sample_world_def low_world_def cpu_world_def bare_world_def sample_hub_def
  known_family_def startswith_def

text \<open>The theorem of C1 at the low-capability world with distributed mode requested.\<close>
theorem distributed_iff_accelerator_and_requested_witness:
  "environ low_world ''CUDA_VISIBLE_DEVICES'' = Some ''0'' \<and>
   known_family (model_type (AutoConfig_from_pretrained low_world ''Qwen/Qwen2.5-7B'')) \<and>
   (\<exists>t. snd (Tuner_init low_world ''Qwen/Qwen2.5-7B'' True) = Inr t \<and>
        optim t = ''adamw_torch'' \<and> deepspeed t = get_deepspeed_config)"
proof -
  have e: "environ low_world ''CUDA_VISIBLE_DEVICES'' = Some ''0''"
    by (simp add: sample_defs)
  have k: "known_family (model_type (AutoConfig_from_pretrained low_world ''Qwen/Qwen2.5-7B''))"
    by (simp add: sample_defs)
  have c: "cuda_is_available low_world"
    by (simp add: sample_defs)
  show ?thesis
    using distributed_iff_accelerator_and_requested [OF e k, of True] e k c by auto
qed

text \<open>
  C1 as stated fails: with an accelerator of capability 7.5 and distributed mode
  requested, the distributed optimizer and the offload block are both produced.
\<close>
theorem low_capability_distributed_counterexample:
  "cuda_is_available low_world \<and>
   fst (cuda_get_device_capability low_world) < 8 \<and>
   map_sum id optim (snd (Tuner_init low_world ''Qwen/Qwen2.5-7B'' True)) = Inr ''adamw_torch'' \<and>
   map_sum id deepspeed (snd (Tuner_init low_world ''Qwen/Qwen2.5-7B'' True)) =
     Inr get_deepspeed_config \<and>
   get_deepspeed_config \<noteq> PNone"
  by (simp add: sample_defs Tuner_init_def print_cuda_info_def get_model_config_def
      BaseModel_init_def hyperparameters_def Let_def get_deepspeed_config_def)

text \<open>
  C2. With no accelerator, for every known family (two model identifiers \<open>mid\<close> and
  \<open>mid'\<close> of any known families, any setting of the distributed flag) the construction
  returns, with \<open>bf16\<close> set, \<open>fp16\<close> not set and the default optimizer; no offload block,
  no attention hint; and all the hyperparameters of the two Tuners agree.
\<close>
theorem no_accelerator_configuration:
  assumes "environ w ''CUDA_VISIBLE_DEVICES'' = Some v"
    and "known_family (model_type (AutoConfig_from_pretrained w mid))"
    and "known_family (model_type (AutoConfig_from_pretrained w mid'))"
    and "\<not> cuda_is_available w"
  shows "\<exists>t t'. snd (Tuner_init w mid ds) = Inr t \<and> snd (Tuner_init w mid' ds') = Inr t' \<and>
           bf16 t \<and> \<not> fp16 t \<and> optim t = ''adamw_8bit'' \<and> deepspeed t = PNone \<and>
           attn_implementation t = None \<and> device_map t = Some ''auto'' \<and>
           bf16 t' = bf16 t \<and> fp16 t' = fp16 t \<and> optim t' = optim t \<and>
           deepspeed t' = deepspeed t \<and> attn_implementation t' = attn_implementation t \<and>
           device_map t' = device_map t"
proof -
  from assms(2) obtain m where m: "snd (get_model_config w mid) = Inr m"
    using get_model_config_known by blast
  from assms(3) obtain m' where m': "snd (get_model_config w mid') = Inr m'"
    using get_model_config_known by blast
  let ?t = "snd (hyperparameters w mid m ds)"
  let ?t' = "snd (hyperparameters w mid' m' ds')"
  have "snd (Tuner_init w mid ds) = Inr ?t"
    by (rule Tuner_init_returns [OF assms(1) m])
  moreover have "snd (Tuner_init w mid' ds') = Inr ?t'"
    by (rule Tuner_init_returns [OF assms(1) m'])
  ultimately show ?thesis
    using hyperparameters_fields [of w mid m ds ?t]
      hyperparameters_fields [of w mid' m' ds' ?t'] assms(4)
    by auto
qed

text \<open>The theorem of C2 at the accelerator-free world, for a gemma and a cohere model.\<close>
theorem no_accelerator_configuration_witness:
  "environ cpu_world ''CUDA_VISIBLE_DEVICES'' = Some ''0'' \<and>
   known_family (model_type (AutoConfig_from_pretrained cpu_world ''google/gemma-2-9b'')) \<and>
   known_family (model_type (AutoConfig_from_pretrained cpu_world ''CohereForAI/aya-23-8B'')) \<and>
   \<not> cuda_is_available cpu_world \<and>
   (\<exists>t t'. snd (Tuner_init cpu_world ''google/gemma-2-9b'' True) = Inr t \<and>
           snd (Tuner_init cpu_world ''CohereForAI/aya-23-8B'' False) = Inr t' \<and>
           bf16 t \<and> \<not> fp16 t \<and> optim t = ''adamw_8bit'' \<and> optim t' = ''adamw_8bit'')"
proof -
  have e: "environ cpu_world ''CUDA_VISIBLE_DEVICES'' = Some ''0''"
    by (simp add: sample_defs)
  have k: "known_family (model_type (AutoConfig_from_pretrained cpu_world ''google/gemma-2-9b''))"
    by (simp add: sample_defs)
  have k': "known_family (model_type (AutoConfig_from_pretrained cpu_world ''CohereForAI/aya-23-8B''))"
    by (simp add: sample_defs)
  have c: "\<not> cuda_is_available cpu_world"
    by (simp add: sample_defs)
  from no_accelerator_configuration [OF e k k' c, of True False]
  obtain t t' where "snd (Tuner_init cpu_world ''google/gemma-2-9b'' True) = Inr t"
    "snd (Tuner_init cpu_world ''CohereForAI/aya-23-8B'' False) = Inr t'"
    "bf16 t" "\<not> fp16 t" "optim t = ''adamw_8bit''" "optim t' = optim t"
    by blast
  then show ?thesis using e k k' c by auto
qed

text \<open>
  C3 (as amended). The accelerator-visibility value is read first: when it is absent the
  informational dump raises \<open>KeyError\<close> before logging anything and the construction ends
  with that error, so neither family dispatch nor hyperparameter derivation is performed;
  when it is present the dump returns and the first log entry of the construction reports
  the value.
\<close>
theorem absent_environment_value_ends_construction:
  "(environ w ''CUDA_VISIBLE_DEVICES'' = None \<longrightarrow>
      print_cuda_info w = ([], Inl (KeyError ''CUDA_VISIBLE_DEVICES'')) \<and>
      Tuner_init w mid ds = ([], Inl (KeyError ''CUDA_VISIBLE_DEVICES''))) \<and>
   (\<forall>v. environ w ''CUDA_VISIBLE_DEVICES'' = Some v \<longrightarrow>
      snd (print_cuda_info w) = Inr () \<and>
      (\<exists>l r. Tuner_init w mid ds = (Info (''visible_devices: '' @ v) # l, r)))"
  by (auto simp: Tuner_init_def print_cuda_info_def split: prod.splits sum.splits)

text \<open>The theorem of C3 at a world without the value and at a world with it.\<close>
theorem absent_environment_value_ends_construction_witness:
  "environ bare_world ''CUDA_VISIBLE_DEVICES'' = None \<and>
   Tuner_init bare_world ''Qwen/Qwen2.5-7B'' False = ([], Inl (KeyError ''CUDA_VISIBLE_DEVICES'')) \<and>
   environ sample_world ''CUDA_VISIBLE_DEVICES'' = Some ''0'' \<and>
   (\<exists>l r. Tuner_init sample_world ''Qwen/Qwen2.5-7B'' False = (Info ''visible_devices: 0'' # l, r))"
proof -
  have n: "environ bare_world ''CUDA_VISIBLE_DEVICES'' = None"
    by (simp add: sample_defs)
  have e: "environ sample_world ''CUDA_VISIBLE_DEVICES'' = Some ''0''"
    by (simp add: sample_defs)
  show ?thesis
    using absent_environment_value_ends_construction [of bare_world "''Qwen/Qwen2.5-7B''" False]
      absent_environment_value_ends_construction [of sample_world "''Qwen/Qwen2.5-7B''" False]
      n e
    by auto
qed

text \<open>
  C3 as stated fails: without the environment value the construction for a model of a known
  family returns no Tuner but the \<open>KeyError\<close> of the dump.
\<close>
theorem core_logic_without_environment_counterexample:
  "environ bare_world ''CUDA_VISIBLE_DEVICES'' = None \<and>
   known_family (model_type (AutoConfig_from_pretrained bare_world ''google/gemma-2-9b'')) \<and>
   Tuner_init bare_world ''google/gemma-2-9b'' True =
     ([], Inl (KeyError ''CUDA_VISIBLE_DEVICES''))"
  by (simp add: sample_defs Tuner_init_def print_cuda_info_def)

section \<open>The model family registry\<close>

text \<open>
  C4. When the detected model type starts with none of gemma, cohere, qwen,
  \<open>get_model_config\<close> fails with the unsupported-model error carrying the identifier,
  nothing having been logged (no constructor ran), and \<open>Tuner.__init__\<close> passes the same
  error on. When it starts with one of them, a strategy of one of the three subclasses is
  returned, its constructor having made its three reports.
\<close>
theorem unsupported_family_error:
  "(\<not> known_family (model_type (AutoConfig_from_pretrained w mid)) \<longrightarrow>
      get_model_config w mid = ([], Inl (Exception (''Unsupported model type: '' @ mid))) \<and>
      (\<forall>v. environ w ''CUDA_VISIBLE_DEVICES'' = Some v \<longrightarrow>
         snd (Tuner_init w mid ds) = Inl (Exception (''Unsupported model type: '' @ mid)))) \<and>
   (known_family (model_type (AutoConfig_from_pretrained w mid)) \<longrightarrow>
      (\<exists>m. snd (get_model_config w mid) = Inr m \<and> model_class m \<noteq> BaseModel \<and>
           length (fst (get_model_config w mid)) = 3))"
proof (intro conjI impI allI)
  assume u: "\<not> known_family (model_type (AutoConfig_from_pretrained w mid))"
  show g: "get_model_config w mid = ([], Inl (Exception (''Unsupported model type: '' @ mid)))"
    by (rule get_model_config_unknown [OF u])
  fix v assume "environ w ''CUDA_VISIBLE_DEVICES'' = Some v"
  then show "snd (Tuner_init w mid ds) = Inl (Exception (''Unsupported model type: '' @ mid))"
    by (simp add: Tuner_init_def print_cuda_info_def g)
next
  assume "known_family (model_type (AutoConfig_from_pretrained w mid))"
  then show "\<exists>m. snd (get_model_config w mid) = Inr m \<and> model_class m \<noteq> BaseModel \<and>
           length (fst (get_model_config w mid)) = 3"
    by (auto simp: get_model_config_def known_family_def Let_def BaseModel_init_def)
qed

text \<open>The theorem of C4 at an unknown and at a known model of the sample hub.\<close>
theorem unsupported_family_error_witness:
  "\<not> known_family (model_type (AutoConfig_from_pretrained sample_world ''meta/llama'')) \<and>
   get_model_config sample_world ''meta/llama'' =
     ([], Inl (Exception ''Unsupported model type: meta/llama'')) \<and>
   environ sample_world ''CUDA_VISIBLE_DEVICES'' = Some ''0'' \<and>
   snd (Tuner_init sample_world ''meta/llama'' True) =
     Inl (Exception ''Unsupported model type: meta/llama'') \<and>
   known_family (model_type (AutoConfig_from_pretrained sample_world ''Qwen/Qwen2.5-7B'')) \<and>
   (\<exists>m. snd (get_model_config sample_world ''Qwen/Qwen2.5-7B'') = Inr m \<and>
        model_class m \<noteq> BaseModel)"
proof -
  have u: "\<not> known_family (model_type (AutoConfig_from_pretrained sample_world ''meta/llama''))"
    by (simp add: sample_defs)
  have e: "environ sample_world ''CUDA_VISIBLE_DEVICES'' = Some ''0''"
    by (simp add: sample_defs)
  have k: "known_family (model_type (AutoConfig_from_pretrained sample_world ''Qwen/Qwen2.5-7B''))"
    by (simp add: sample_defs)
  show ?thesis
    using unsupported_family_error [of sample_world "''meta/llama''" True]
      unsupported_family_error [of sample_world "''Qwen/Qwen2.5-7B''" True] u e k
    by auto
qed

text \<open>
  C7. The construction returns a Tuner whose attention hint is, on an accelerator of
  capability 8 or more, \<open>eager\<close> for a gemma model type and \<open>flash_attention_2\<close> for any
  other known family (two different hints), and is not set on a lower capability or
  without accelerator.
\<close>
theorem attention_hint_by_family:
  assumes "environ w ''CUDA_VISIBLE_DEVICES'' = Some v"
    and "known_family (model_type (AutoConfig_from_pretrained w mid))"
  shows "\<exists>t. snd (Tuner_init w mid ds) = Inr t \<and>
           attn_implementation t =
             (if cuda_is_available w \<and> 8 \<le> fst (cuda_get_device_capability w)
              then (if startswith (model_type (AutoConfig_from_pretrained w mid)) ''gemma''
                    then Some ''eager'' else Some ''flash_attention_2'')
              else None) \<and>
           Some ''eager'' \<noteq> Some ''flash_attention_2''"
proof -
  from assms(2) obtain m where m: "snd (get_model_config w mid) = Inr m"
    and c: "model.config m = AutoConfig_from_pretrained w mid"
    using get_model_config_known by blast
  let ?t = "snd (hyperparameters w mid m ds)"
  have "snd (Tuner_init w mid ds) = Inr ?t"
    by (rule Tuner_init_returns [OF assms(1) m])
  then show ?thesis
    using hyperparameters_fields [of w mid m ds ?t] c by auto
qed

text \<open>The theorem of C7 at the gemma model on the high-capability world.\<close>
theorem attention_hint_by_family_witness:
  "environ sample_world ''CUDA_VISIBLE_DEVICES'' = Some ''0'' \<and>
   known_family (model_type (AutoConfig_from_pretrained sample_world ''google/gemma-2-9b'')) \<and>
   (\<exists>t. snd (Tuner_init sample_world ''google/gemma-2-9b'' True) = Inr t \<and>
        attn_implementation t = Some ''eager'')"
proof -
  have e: "environ sample_world ''CUDA_VISIBLE_DEVICES'' = Some ''0''"
    by (simp add: sample_defs)
  have k: "known_family (model_type (AutoConfig_from_pretrained sample_world ''google/gemma-2-9b''))"
    by (simp add: sample_defs)
  have c: "cuda_is_available sample_world \<and> 8 \<le> fst (cuda_get_device_capability sample_world)"
    by (simp add: sample_defs)
  have g: "startswith (model_type (AutoConfig_from_pretrained sample_world ''google/gemma-2-9b'')) ''gemma''"
    by (simp add: sample_defs)
  show ?thesis
    using attention_hint_by_family [OF e k, of True] e k c g by auto
qed

text \<open>
  C8. On an accelerator of capability 8 or more with distributed mode disabled, the
  construction returns a Tuner with \<open>bf16\<close> set, \<open>fp16\<close> not set and no offload block.
\<close>
theorem high_capability_without_distributed:
  assumes "environ w ''CUDA_VISIBLE_DEVICES'' = Some v"
    and "known_family (model_type (AutoConfig_from_pretrained w mid))"
    and "cuda_is_available w"
    and "8 \<le> fst (cuda_get_device_capability w)"
  shows "\<exists>t. snd (Tuner_init w mid False) = Inr t \<and>
           bf16 t \<and> \<not> fp16 t \<and> deepspeed t = PNone \<and>
           optim t = ''adamw_8bit'' \<and> device_map t = Some ''auto''"
proof -
  from assms(2) obtain m where m: "snd (get_model_config w mid) = Inr m"
    using get_model_config_known by blast
  let ?t = "snd (hyperparameters w mid m False)"
  have "snd (Tuner_init w mid False) = Inr ?t"
    by (rule Tuner_init_returns [OF assms(1) m])
  then show ?thesis
    using hyperparameters_fields [of w mid m False ?t] assms(3,4) by auto
qed

text \<open>The theorem of C8 at the cohere model on the high-capability world.\<close>
theorem high_capability_without_distributed_witness:
  "environ sample_world ''CUDA_VISIBLE_DEVICES'' = Some ''0'' \<and>
   known_family (model_type (AutoConfig_from_pretrained sample_world ''CohereForAI/aya-23-8B'')) \<and>
   cuda_is_available sample_world \<and>
   8 \<le> fst (cuda_get_device_capability sample_world) \<and>
   (\<exists>t. snd (Tuner_init sample_world ''CohereForAI/aya-23-8B'' False) = Inr t \<and>
        bf16 t \<and> \<not> fp16 t \<and> deepspeed t = PNone)"
proof -
  have e: "environ sample_world ''CUDA_VISIBLE_DEVICES'' = Some ''0''"
    by (simp add: sample_defs)
  have k: "known_family (model_type (AutoConfig_from_pretrained sample_world ''CohereForAI/aya-23-8B''))"
    by (simp add: sample_defs)
  have c: "cuda_is_available sample_world"
    by (simp add: sample_defs)
  have h: "8 \<le> fst (cuda_get_device_capability sample_world)"
    by (simp add: sample_defs)
  show ?thesis
    using high_capability_without_distributed [OF e k c h] e k c h by auto
qed

section \<open>Prompt formatting\<close>

lemma field_unfold:
  "field r k = (case r k of None \<Rightarrow> Inl (KeyError k) | Some (Text s) \<Rightarrow> Inr (strip s)
                | Some (Ids xs) \<Rightarrow> Inl (AttributeError ''strip''))"
  by (simp add: field_def getitem_def split: option.splits cell.splits)

lemma instruction_record_is_record: "instruction_record r \<Longrightarrow> is_record r"
  by (simp add: is_record_def)

lemma instruction_record_fields:
  assumes "instruction_record r"
  shows "\<exists>a b c. field r ''instruct'' = Inr a \<and> field r ''input'' = Inr b \<and>
                  field r ''output'' = Inr c"
  using assms
  by (auto simp: instruction_record_def string_field_def field_unfold
      split: option.splits cell.splits)

lemma prepare_chat_template_record:
  assumes "instruction_record r" and "c \<noteq> BaseModel"
  shows "\<exists>ms. prepare_chat_template c r = Inr (Some ms)"
proof -
  from instruction_record_fields [OF assms(1)] obtain a b d where
    "field r ''instruct'' = Inr a" "field r ''input'' = Inr b" "field r ''output'' = Inr d"
    by blast
  then show ?thesis using assms(2) by (cases c) simp_all
qed

lemma prepare_chat_template_roles:
  assumes "prepare_chat_template c r = Inr chat" and "c \<noteq> BaseModel"
  shows "\<exists>ms. chat = Some ms \<and>
           map role ms = (if c = GemmaModel then [''user'', ''assistant'']
                          else [''system'', ''user'', ''assistant''])"
  using assms by (cases c) (auto simp: bind_eq_Inr)

lemma prepare_chat_template_no_instruct:
  assumes "r ''instruct'' = None" and "c \<noteq> BaseModel"
  shows "prepare_chat_template c r = Inl (KeyError ''instruct'')"
  using assms by (cases c) (simp_all add: field_unfold)

text \<open>
  C5 (as amended). For a model type with a known prefix the registry returns a strategy,
  and for every row \<open>r\<close>: if \<open>r\<close> is a Record with string fields instruct, input and
  output, the strategy produces a prompt; and every prompt it produces has exactly the
  roles user, assistant for gemma, and system, user, assistant for cohere and for qwen, in
  this order.
\<close>
theorem family_roles:
  assumes "known_family (model_type (AutoConfig_from_pretrained w mid))"
  shows "\<exists>m. snd (get_model_config w mid) = Inr m \<and>
           (instruction_record r \<longrightarrow> (\<exists>ms. prepare_chat_template (model_class m) r = Inr (Some ms))) \<and>
           (\<forall>chat. prepare_chat_template (model_class m) r = Inr chat \<longrightarrow>
              (\<exists>ms. chat = Some ms \<and>
                 (startswith (model_type (AutoConfig_from_pretrained w mid)) ''gemma'' \<longrightarrow>
                    map role ms = [''user'', ''assistant'']) \<and>
                 (startswith (model_type (AutoConfig_from_pretrained w mid)) ''cohere'' \<longrightarrow>
                    map role ms = [''system'', ''user'', ''assistant'']) \<and>
                 (startswith (model_type (AutoConfig_from_pretrained w mid)) ''qwen'' \<longrightarrow>
                    map role ms = [''system'', ''user'', ''assistant''])))"
proof -
  let ?mt = "model_type (AutoConfig_from_pretrained w mid)"
  from get_model_config_known [OF assms] obtain m where
    m: "snd (get_model_config w mid) = Inr m" and
    c: "model_class m = (if startswith ?mt ''gemma'' then GemmaModel
                         else if startswith ?mt ''cohere'' then CohereModel else QwenModel)"
    by blast
  have nb: "model_class m \<noteq> BaseModel" using c by simp
  have a: "instruction_record r \<longrightarrow> (\<exists>ms. prepare_chat_template (model_class m) r = Inr (Some ms))"
    using prepare_chat_template_record [OF _ nb] by simp
  have b: "\<exists>ms. chat = Some ms \<and>
      (startswith ?mt ''gemma'' \<longrightarrow> map role ms = [''user'', ''assistant'']) \<and>
      (startswith ?mt ''cohere'' \<longrightarrow> map role ms = [''system'', ''user'', ''assistant'']) \<and>
      (startswith ?mt ''qwen'' \<longrightarrow> map role ms = [''system'', ''user'', ''assistant''])"
    if p: "prepare_chat_template (model_class m) r = Inr chat" for chat
  proof -
    from prepare_chat_template_roles [OF p nb] obtain ms where
      ms: "chat = Some ms" and
      r: "map role ms = (if model_class m = GemmaModel then [''user'', ''assistant'']
                         else [''system'', ''user'', ''assistant''])"
      by blast
    show ?thesis
    proof (cases "startswith ?mt ''gemma''")
      case True
      then show ?thesis
        using ms r c gemma_not_cohere [OF True] gemma_not_qwen [OF True] by simp
    next
      case False
      then show ?thesis using ms r c by simp
    qed
  qed
  show ?thesis
  proof (intro exI [of _ m] conjI allI impI)
    show "snd (get_model_config w mid) = Inr m" by (rule m)
  next
    assume "instruction_record r"
    with a show "\<exists>ms. prepare_chat_template (model_class m) r = Inr (Some ms)" by simp
  next
    fix chat assume "prepare_chat_template (model_class m) r = Inr chat"
    then show "\<exists>ms. chat = Some ms \<and>
      (startswith ?mt ''gemma'' \<longrightarrow> map role ms = [''user'', ''assistant'']) \<and>
      (startswith ?mt ''cohere'' \<longrightarrow> map role ms = [''system'', ''user'', ''assistant'']) \<and>
      (startswith ?mt ''qwen'' \<longrightarrow> map role ms = [''system'', ''user'', ''assistant''])"
      by (rule b)
  qed
qed

lemma instruction_record_sample: "instruction_record (hd (rows instruct_dataset))"
  by (simp add: instruction_record_def string_field_def instruct_dataset_def)

text \<open>The theorem of C5 at the gemma model and the row of the sample instruction dataset.\<close>
theorem family_roles_witness:
  "known_family (model_type (AutoConfig_from_pretrained sample_world ''google/gemma-2-9b'')) \<and>
   instruction_record (hd (rows instruct_dataset)) \<and>
   (\<exists>m ms. snd (get_model_config sample_world ''google/gemma-2-9b'') = Inr m \<and>
      prepare_chat_template (model_class m) (hd (rows instruct_dataset)) = Inr (Some ms) \<and>
      map role ms = [''user'', ''assistant''])"
proof -
  let ?mt = "model_type (AutoConfig_from_pretrained sample_world ''google/gemma-2-9b'')"
  let ?r = "hd (rows instruct_dataset)"
  have k: "known_family ?mt"
    by (simp add: sample_defs)
  have g: "startswith ?mt ''gemma''"
    by (simp add: sample_defs)
  from family_roles [OF k, of ?r] obtain m where
    m: "snd (get_model_config sample_world ''google/gemma-2-9b'') = Inr m" and
    a: "instruction_record ?r \<longrightarrow> (\<exists>ms. prepare_chat_template (model_class m) ?r = Inr (Some ms))" and
    b: "\<forall>chat. prepare_chat_template (model_class m) ?r = Inr chat \<longrightarrow>
          (\<exists>ms. chat = Some ms \<and>
            (startswith ?mt ''gemma'' \<longrightarrow> map role ms = [''user'', ''assistant'']) \<and>
            (startswith ?mt ''cohere'' \<longrightarrow> map role ms = [''system'', ''user'', ''assistant'']) \<and>
            (startswith ?mt ''qwen'' \<longrightarrow> map role ms = [''system'', ''user'', ''assistant'']))"
    by (elim exE conjE) (rule that)
  from a instruction_record_sample obtain ms where
    p: "prepare_chat_template (model_class m) ?r = Inr (Some ms)"
    by (elim impE exE) (assumption, rule that)
  from spec [OF b, of "Some ms"] p g have "map role ms = [''user'', ''assistant'']"
    by simp
  with k m p instruction_record_sample show ?thesis
    by (intro conjI exI [of _ m] exI [of _ ms])
qed

text \<open>
  C5 as stated fails: a row with only a pre-formatted text field is a Record of the data
  model, and on it the strategy of each family raises \<open>KeyError\<close> and produces no prompt.
\<close>
theorem text_record_no_prompt_counterexample:
  "is_record (hd (rows text_dataset)) \<and>
   known_family (model_type (AutoConfig_from_pretrained sample_world ''google/gemma-2-9b'')) \<and>
   map_sum id model_class (snd (get_model_config sample_world ''google/gemma-2-9b'')) =
     Inr GemmaModel \<and>
   prepare_chat_template GemmaModel (hd (rows text_dataset)) = Inl (KeyError ''instruct'') \<and>
   prepare_chat_template CohereModel (hd (rows text_dataset)) = Inl (KeyError ''instruct'') \<and>
   prepare_chat_template QwenModel (hd (rows text_dataset)) = Inl (KeyError ''instruct'')"
  by (simp add: is_record_def string_field_def text_dataset_def field_def getitem_def
      sample_defs get_model_config_def BaseModel_init_def Let_def)

text \<open>
  C10. The formatted prompt of a family is a function of the three fields instruct, input
  and output of the Record alone: two rows that agree on them (in particular two identical
  Records) get the same role and content sequence from \<open>prepare_chat_template\<close>, and
  the same rendered text from \<open>apply_chat_template\<close> of the same strategy object.
\<close>
theorem formatting_depends_on_fields_only:
  assumes "r1 ''instruct'' = r2 ''instruct''"
    and "r1 ''input'' = r2 ''input''"
    and "r1 ''output'' = r2 ''output''"
  shows "prepare_chat_template c r1 = prepare_chat_template c r2 \<and>
         apply_chat_template m r1 = apply_chat_template m r2"
proof -
  have f: "field r1 k = field r2 k" if "k \<in> {''instruct'', ''input'', ''output''}" for k
    using that assms by (auto simp: field_def getitem_def)
  have p: "prepare_chat_template c r1 = prepare_chat_template c r2" for c
    by (cases c) (simp_all add: f)
  then show ?thesis by (simp add: apply_chat_template_def)
qed

text \<open>The theorem of C10 at a row and the same row with one more column.\<close>
theorem formatting_depends_on_fields_only_witness:
  "hd (rows instruct_dataset) ''instruct'' =
     ((hd (rows instruct_dataset))(''id'' \<mapsto> Text ''7'')) ''instruct'' \<and>
   prepare_chat_template QwenModel (hd (rows instruct_dataset)) =
   prepare_chat_template QwenModel ((hd (rows instruct_dataset))(''id'' \<mapsto> Text ''7''))"
proof -
  let ?r = "hd (rows instruct_dataset)"
  let ?r' = "?r(''id'' \<mapsto> Text ''7'')"
  have a: "?r ''instruct'' = ?r' ''instruct''" by simp
  have b: "?r ''input'' = ?r' ''input''" by simp
  have c: "?r ''output'' = ?r' ''output''" by simp
  have p: "prepare_chat_template QwenModel ?r = prepare_chat_template QwenModel ?r'"
    by (rule conjunct1 [OF formatting_depends_on_fields_only [OF a b c]])
  show ?thesis by (rule conjI [OF a p])
qed

section \<open>Supervised fine-tuning\<close>

lemma getattr_response_template:
  "getattr m ''response_template'' = Inl (AttributeError ''response_template'')"
  by (cases "model_class m") (simp_all add: getattr_def instance_dict_def)

lemma class_dict_response_template: "''response_template'' \<notin> set (class_dict c)"
  by (cases c) simp_all

lemma Dataset_filter_columns:
  "Dataset_filter f d = Inr d' \<Longrightarrow> column_names d' = column_names d"
  by (auto simp: Dataset_filter_def bind_eq_Inr)

lemma Dataset_map_columns:
  "Dataset_map f d = Inr d' \<Longrightarrow> set (column_names d) \<subseteq> set (column_names d')"
  by (auto simp: Dataset_map_def bind_eq_Inr)

lemma remove_columns_columns:
  "remove_columns d ns = Inr d' \<Longrightarrow>
     column_names d' = filter (\<lambda>c. c \<notin> set ns) (column_names d)"
  by (auto simp: remove_columns_def split: list.splits)

lemma sft_prepare_linear:
  assumes i: "''instruct'' \<in> set (column_names (load_dataset w d))"
    and p: "sft_prepare w t d q = Inr (t1, d4, lr)"
  shows "lr = Some ''linear''"
proof -
  from p obtain d1 d2 d3 lr1 where
    f: "Dataset_filter (filter_func (t\<lparr>max_len := max_len t1\<rparr>)) (load_dataset w d) = Inr d1" and
    m: "Dataset_map (map_func (t\<lparr>max_len := max_len t1\<rparr>)) d1 = Inr d2" and
    x: "(if ''text'' \<in> set (column_names d2)
         then bind (remove_columns d2 [''text'']) (\<lambda>d. Inr (d, Some ''constant''))
         else Inr (d2, None)) = Inr (d3, lr1)" and
    y: "(if ''instruct'' \<in> set (column_names d3)
         then bind (remove_columns d3 [''instruct'', ''input'', ''output''])
                (\<lambda>d. Inr (d, Some ''linear''))
         else Inr (d3, lr1)) = Inr (d4, lr)"
    by (auto simp: sft_prepare_def Let_def bind_eq_Inr split: prod.splits)
  have "''instruct'' \<in> set (column_names d1)"
    using i Dataset_filter_columns [OF f] by simp
  then have "''instruct'' \<in> set (column_names d2)"
    using Dataset_map_columns [OF m] by auto
  then have "''instruct'' \<in> set (column_names d3)"
    using x by (auto simp: bind_eq_Inr dest!: remove_columns_columns split: if_splits)
  then show ?thesis
    using y by (auto simp: bind_eq_Inr)
qed

lemma bind_raise_not_Inr: "bind x (\<lambda>v. Inl e) \<noteq> Inr y"
  by (cases x) simp_all

lemma prepare_args_scheduler:
  "prepare_args t ne lr bs gs s = Inr a \<Longrightarrow> map_of a ''lr_scheduler_type'' = Some (PStr s)"
  by (auto simp: prepare_args_def split: option.splits)

lemma sft_Inr:
  assumes s: "sft w t d a e q rk la ld ne bs gs lr co = Inr (t', tr)"
  shows "\<exists>t1 d4 s. sft_prepare w t d q = Inr (t1, d4, Some s) \<and>
           map_of (args tr) ''lr_scheduler_type'' = Some (PStr s)"
proof (cases "sft_prepare w t d q")
  case (Inl err)
  with s show ?thesis by (simp add: sft_def)
next
  case (Inr x)
  obtain t1 d4 l where x: "x = (t1, d4, l)" by (cases x)
  obtain t2 train ev where pd: "prepare_datasets w t1 d4 e = (t2, train, ev)"
    by (cases "prepare_datasets w t1 d4 e")
  show ?thesis
  proof (cases l)
    case None
    with s Inr x pd show ?thesis
      by (simp add: sft_def bind_raise_not_Inr)
  next
    case (Some sched)
    with s Inr x pd obtain dc ar where
      ar: "prepare_args t2 ne lr bs gs sched = Inr ar" and
      tr: "tr = \<lparr>base_model = load_base_model t2 True,
                 peft_config = get_lora_config t2 rk la,
                 train_dataset = train, eval_dataset = ev, collator = dc,
                 args = ar, save_model = a\<rparr>"
      by (auto simp: sft_def bind_eq_Inr)
    from tr have "args tr = ar" by simp
    with prepare_args_scheduler [OF ar] Inr x Some show ?thesis by simp
  qed
qed

lemma get_instruction_no_instruct:
  assumes "r ''instruct'' = None" and "model_class (model_config t) \<noteq> BaseModel"
  shows "get_instruction t r = Inl (KeyError ''instruct'')"
  using prepare_chat_template_no_instruct [of r "model_class (model_config t)"] assms
  by (simp add: get_instruction_def apply_chat_template_def)

lemma sft_prepare_no_instruct:
  assumes wf: "wf_dataset (load_dataset w d)"
    and cls: "model_class (model_config t) \<noteq> BaseModel"
    and ni: "''instruct'' \<notin> set (column_names (load_dataset w d))"
  shows "(\<exists>e. sft_prepare w t d q = Inl e) \<and>
         (rows (load_dataset w d) \<noteq> [] \<longrightarrow> sft_prepare w t d q = Inl (KeyError ''instruct''))"
proof (cases "rows (load_dataset w d)")
  case Nil
  then show ?thesis
    by (cases "np_percentile w [] q") (simp_all add: sft_prepare_def Let_def)
next
  case (Cons r rs)
  with wf have "dom r = set (column_names (load_dataset w d))"
    by (simp add: wf_dataset_def)
  with ni have "r ''instruct'' = None" by auto
  then have "get_instruction t r = Inl (KeyError ''instruct'')"
    using cls by (rule get_instruction_no_instruct)
  then show ?thesis
    using Cons by (simp add: sft_prepare_def Let_def)
qed

text \<open>
  C6 (as amended). No strategy class defines \<open>response_template\<close>, so reading it raises
  \<open>AttributeError\<close>; and \<open>sft\<close> with \<open>comp_only=True\<close> never reaches the trainer: it
  ends with the error of the dataset preparation (lines 74 to 98) when that fails, and
  with the attribute error on \<open>response_template\<close> in every other case.
\<close>
theorem completion_only_never_trains:
  "getattr m ''response_template'' = Inl (AttributeError ''response_template'') \<and>
   ''response_template'' \<notin> set (class_dict c) \<and>
   sft w t d a e q rk la ld ne bs gs lr True =
     (case sft_prepare w t d q of
        Inl err \<Rightarrow> Inl err
      | Inr x \<Rightarrow> Inl (AttributeError ''response_template''))"
  by (cases "sft_prepare w t d q")
    (auto simp: sft_def getattr_response_template class_dict_response_template)

text \<open>
  C9 (as amended). For a well-formed dataset and a Tuner whose strategy is of one of the
  three family classes: when the dataset has an instruct column, every run of \<open>sft\<close>
  that reaches the trainer passes the scheduler type \<open>linear\<close>; when it has neither an
  instruct nor a text column, \<open>sft\<close> fails before the trainer is invoked, and for a
  dataset with at least one row the failure is the \<open>KeyError\<close> on \<open>instruct\<close> raised
  while the first record is formatted (line 75), not an unbound-variable error.
\<close>
theorem scheduler_linear_with_instruct_column:
  assumes "wf_dataset (load_dataset w d)"
    and "model_class (model_config t) \<noteq> BaseModel"
  shows "(''instruct'' \<in> set (column_names (load_dataset w d)) \<longrightarrow>
            (\<forall>t' tr. sft w t d a e q rk la ld ne bs gs lr co = Inr (t', tr) \<longrightarrow>
               map_of (args tr) ''lr_scheduler_type'' = Some (PStr ''linear''))) \<and>
         (''instruct'' \<notin> set (column_names (load_dataset w d)) \<and>
          ''text'' \<notin> set (column_names (load_dataset w d)) \<longrightarrow>
            (\<exists>err. sft w t d a e q rk la ld ne bs gs lr co = Inl err) \<and>
            (rows (load_dataset w d) \<noteq> [] \<longrightarrow>
               sft w t d a e q rk la ld ne bs gs lr co = Inl (KeyError ''instruct'')))"
proof (intro conjI impI allI)
  fix t' tr
  assume i: "''instruct'' \<in> set (column_names (load_dataset w d))"
    and s: "sft w t d a e q rk la ld ne bs gs lr co = Inr (t', tr)"
  from sft_Inr [OF s] obtain t1 d4 s' where
    p: "sft_prepare w t d q = Inr (t1, d4, Some s')" and
    m: "map_of (args tr) ''lr_scheduler_type'' = Some (PStr s')"
    by blast
  from sft_prepare_linear [OF i p] m
  show "map_of (args tr) ''lr_scheduler_type'' = Some (PStr ''linear'')" by simp
next
  assume n: "''instruct'' \<notin> set (column_names (load_dataset w d)) \<and>
             ''text'' \<notin> set (column_names (load_dataset w d))"
  from sft_prepare_no_instruct [OF assms, of q] n
  show "\<exists>err. sft w t d a e q rk la ld ne bs gs lr co = Inl err"
    by (auto simp: sft_def)
  assume "rows (load_dataset w d) \<noteq> []"
  with sft_prepare_no_instruct [OF assms, of q] n
  show "sft w t d a e q rk la ld ne bs gs lr co = Inl (KeyError ''instruct'')"
    by (simp add: sft_def)
qed

subsection \<open>Runs in the sample world\<close>

lemmas run_defs =
  sft_def sft_prepare_def sample_tuner_def hyperparameters_def BaseModel_init_def
  sample_tokenizer_def instruct_dataset_def text_dataset_def prompt_dataset_def
  get_instruction_def apply_chat_template_def field_def getitem_def
  Dataset_filter_def Dataset_map_def remove_columns_def filter_func_def map_func_def
  read_max_len_def prepare_datasets_def prepare_args_def getattr_def instance_dict_def
  strip_def isspace_def Let_def

lemma sample_tuner_constructed:
  "snd (Tuner_init sample_world ''google/gemma-2-9b'' False) = Inr sample_tuner"
proof -
  have e: "environ sample_world ''CUDA_VISIBLE_DEVICES'' = Some ''0''"
    by (simp add: sample_defs)
  have "snd (get_model_config sample_world ''google/gemma-2-9b'') =
        Inr (snd (BaseModel_init sample_world GemmaModel ''google/gemma-2-9b''
                    (sample_hub ''google/gemma-2-9b'')))"
    by (simp add: sample_defs get_model_config_def Let_def case_prod_beta)
  from Tuner_init_returns [OF e this] show ?thesis
    by (simp add: sample_tuner_def)
qed

lemma sample_tuner_class: "model_class (model_config sample_tuner) = GemmaModel"
  by (simp add: sample_defs sample_tuner_def hyperparameters_def BaseModel_init_def Let_def)

lemma wf_samples:
  "wf_dataset (load_dataset sample_world ''instruct'')"
  "wf_dataset (load_dataset sample_world ''prompt'')"
  by (auto simp: sample_defs wf_dataset_def instruct_dataset_def prompt_dataset_def)

lemma sample_prepare:
  "\<exists>t1 d4. sft_prepare sample_world sample_tuner ''instruct'' 100 = Inr (t1, d4, Some ''linear'')"
  by (simp add: sample_defs run_defs)


text \<open>
  The theorem of C6 at the sample instruction dataset: the preparation succeeds and the
  run ends with the attribute error.
\<close>
theorem completion_only_never_trains_witness:
  "sft sample_world sample_tuner ''instruct'' ''out'' False 100 32 None (1 / 10) 1 4 2
     (1 / 100000) True = Inl (AttributeError ''response_template'')"
proof -
  from sample_prepare obtain t1 d4 where
    "sft_prepare sample_world sample_tuner ''instruct'' 100 = Inr (t1, d4, Some ''linear'')"
    by (elim exE)
  with completion_only_never_trains [of _ _ sample_world sample_tuner "''instruct''"
      "''out''" False 100 32 None "1 / 10" 1 4 2 "1 / 100000"]
  show ?thesis by simp
qed

text \<open>
  C6 as stated fails: for the Tuner built by \<open>Tuner.__init__\<close> and a dataset whose only
  column is prompt, \<open>sft\<close> with \<open>comp_only=True\<close> ends with the \<open>KeyError\<close> of the
  formatting, not with an attribute error.
\<close>
theorem completion_only_key_error_counterexample:
  "snd (Tuner_init sample_world ''google/gemma-2-9b'' False) = Inr sample_tuner \<and>
   sft sample_world sample_tuner ''prompt'' ''out'' False 100 32 None (1 / 10) 1 4 2
     (1 / 100000) True = Inl (KeyError ''instruct'')"
  by (simp add: sample_tuner_constructed) (simp add: sample_defs run_defs)

text \<open>The theorem of C9 at the sample instruction dataset, where \<open>sft\<close> reaches the trainer.\<close>
theorem scheduler_linear_with_instruct_column_witness:
  "wf_dataset (load_dataset sample_world ''instruct'') \<and>
   model_class (model_config sample_tuner) \<noteq> BaseModel \<and>
   ''instruct'' \<in> set (column_names (load_dataset sample_world ''instruct'')) \<and>
   map_sum id (\<lambda>x. map_of (args (snd x)) ''lr_scheduler_type'')
     (sft sample_world sample_tuner ''instruct'' ''out'' False 100 32 None (1 / 10) 1 4 2
        (1 / 100000) False) = Inr (Some (PStr ''linear''))"
proof -
  let ?run = "sft sample_world sample_tuner ''instruct'' ''out'' False 100 32 None (1 / 10) 1 4 2
        (1 / 100000) False"
  have c: "model_class (model_config sample_tuner) \<noteq> BaseModel"
    by (simp add: sample_tuner_class)
  have i: "''instruct'' \<in> set (column_names (load_dataset sample_world ''instruct''))"
    by (simp add: sample_defs instruct_dataset_def)
  have "\<exists>x. ?run = Inr x"
    by (simp add: sample_defs run_defs)
  then obtain t' tr where r: "?run = Inr (t', tr)" by auto
  from scheduler_linear_with_instruct_column [OF wf_samples(1) c,
      of "''out''" False 100 32 None "1 / 10" 1 4 2 "1 / 100000" False] i r
  have "map_of (args tr) ''lr_scheduler_type'' = Some (PStr ''linear'')" by simp
  with wf_samples(1) c i r show ?thesis by simp
qed

text \<open>
  C9 as stated fails: for a dataset with neither a text nor an instruct column, \<open>sft\<close>
  ends with the \<open>KeyError\<close> of the formatting, before the training arguments are
  assembled, and not with an unbound-variable error.
\<close>
theorem neither_column_key_error_counterexample:
  "''instruct'' \<notin> set (column_names (load_dataset sample_world ''prompt'')) \<and>
   ''text'' \<notin> set (column_names (load_dataset sample_world ''prompt'')) \<and>
   snd (Tuner_init sample_world ''google/gemma-2-9b'' False) = Inr sample_tuner \<and>
   sft sample_world sample_tuner ''prompt'' ''out'' False 100 32 None (1 / 10) 1 4 2
     (1 / 100000) False = Inl (KeyError ''instruct'')"
  by (simp add: sample_tuner_constructed) (simp add: sample_defs run_defs)

text \<open>
  A dataset with a text column and no instruct column does not reach line 92 either:
  every family's \<open>prepare_chat_template\<close> subscripts the record with \<open>instruct\<close>, so the
  assignment of the scheduler type \<open>constant\<close> in lines 92 to 94 is never followed by
  the assembly of the training arguments.
\<close>
lemma text_only_dataset_key_error:
  "''text'' \<in> set (column_names (load_dataset sample_world ''text'')) \<and>
   sft sample_world sample_tuner ''text'' ''out'' False 100 32 None (1 / 10) 1 4 2
     (1 / 100000) False = Inl (KeyError ''instruct'')"
  by (simp add: sample_defs run_defs)

end
